theory Spec2Isabelle
  imports Complex_Main
begin

section \<open>Python values used by the budget bot\<close>

subsection \<open>Strings\<close>

text \<open>
  A Python \<open>str\<close> is modelled by the \<open>string\<close> of its UTF-8 bytes, so that the
  emoji and the pound sign of the replies are the byte sequences they have in the source
  file. \<open>str.split()\<close> without argument cuts at every run of white space; the white-space
  code points are U+0009..U+000D, U+001C..U+0020, U+0085, U+00A0, U+1680, U+2000..U+200A,
  U+2028, U+2029, U+202F, U+205F and U+3000, and \<open>space_len\<close> recognises their
  encodings at the head of a string. \<open>str.lower()\<close> is modelled on the ASCII letters:
  the only code points outside ASCII that it maps to text containing an ASCII letter are
  U+212A (to \<open>k\<close>, a letter no command has) and U+0130 (to \<open>i\<close> followed by U+0307),
  so the comparison of the lowered first token with the command names is the same.
\<close>

definition char_code :: "char \<Rightarrow> int" where
  "char_code c = of_char c"

definition space_len :: "string \<Rightarrow> nat" where
  \<comment> \<open>the number of bytes of the white-space code point at the head of the string, 0 if
      there is none\<close>
  "space_len s =
     (case map char_code (take 3 s) of
        [] \<Rightarrow> 0
      | a # r \<Rightarrow>
          if (9 \<le> a \<and> a \<le> 13) \<or> (28 \<le> a \<and> a \<le> 32) then 1
          else (case r of
                  [] \<Rightarrow> 0
                | b # r' \<Rightarrow>
                    if a = 0xC2 \<and> (b = 0x85 \<or> b = 0xA0) then 2
                    else (case r' of
                            [] \<Rightarrow> 0
                          | c # _ \<Rightarrow>
                              if (a = 0xE1 \<and> b = 0x9A \<and> c = 0x80)
                                 \<or> (a = 0xE2 \<and> b = 0x80 \<and> 0x80 \<le> c \<and> c \<le> 0x8A)
                                 \<or> (a = 0xE2 \<and> b = 0x80 \<and> (c = 0xA8 \<or> c = 0xA9 \<or> c = 0xAF))
                                 \<or> (a = 0xE2 \<and> b = 0x81 \<and> c = 0x9F)
                                 \<or> (a = 0xE3 \<and> b = 0x80 \<and> c = 0x80)
                              then 3 else 0)))"

fun split_from :: "nat \<Rightarrow> string \<Rightarrow> string \<Rightarrow> string list" where
  \<comment> \<open>\<open>skip\<close>: bytes of a white-space code point still to pass; \<open>cur\<close>: the token read so far\<close>
  "split_from skip cur [] = (if cur = [] then [] else [cur])"
| "split_from (Suc k) cur (c # cs) = split_from k cur cs"
| "split_from 0 cur (c # cs) =
     (let n = space_len (c # cs)
      in if n = 0 then split_from 0 (cur @ [c]) cs
         else (if cur = [] then [] else [cur]) @ split_from (n - 1) [] cs)"

definition split :: "string \<Rightarrow> string list" where
  "split text = split_from 0 [] text"

definition lower_char :: "char \<Rightarrow> char" where
  "lower_char c = (if 65 \<le> char_code c \<and> char_code c \<le> 90 then char_of (char_code c + 32) else c)"

definition lower :: "string \<Rightarrow> string" where
  "lower s = map lower_char s"

fun join :: "string \<Rightarrow> string list \<Rightarrow> string" where
  "join sep [] = []"
| "join sep [x] = x"
| "join sep (x # y # ys) = x @ sep @ join sep (y # ys)"

definition digit_char :: "int \<Rightarrow> char" where
  "digit_char d = char_of (48 + d)"

fun str_of_nat :: "int \<Rightarrow> string" where
  "str_of_nat n = (if n < 10 then [digit_char n] else str_of_nat (n div 10) @ [digit_char (n mod 10)])"

declare str_of_nat.simps [simp del]

definition str_of_int :: "int \<Rightarrow> string" where
  \<comment> \<open>\<open>str(i)\<close>, also what an f-string inserts for an \<open>int\<close>\<close>
  "str_of_int i = (if i < 0 then ''-'' @ str_of_nat (- i) else str_of_nat i)"

definition hex_digit :: "int \<Rightarrow> char" where
  "hex_digit d = (if d < 10 then char_of (48 + d) else char_of (87 + d))"

definition repr_char :: "char \<Rightarrow> char \<Rightarrow> string" where
  "repr_char q c =
     (if c = q \<or> c = CHR 0x5C then [CHR 0x5C, c]
      else if c = CHR 0x09 then [CHR 0x5C, CHR ''t'']
      else if c = CHR 0x0A then [CHR 0x5C, CHR ''n'']
      else if c = CHR 0x0D then [CHR 0x5C, CHR ''r'']
      else if char_code c < 32 \<or> char_code c = 127
        then [CHR 0x5C, CHR ''x'', hex_digit (char_code c div 16), hex_digit (char_code c mod 16)]
      else [c])"

definition repr :: "string \<Rightarrow> string" where
  \<comment> \<open>\<open>repr\<close> of a \<open>str\<close>: single quotes unless the text has a single and no double quote;
      code points outside ASCII are taken as printable and stay as they are\<close>
  "repr s =
     (let q = (if CHR 0x27 \<in> set s \<and> CHR 0x22 \<notin> set s then CHR 0x22 else CHR 0x27)
      in [q] @ concat (map (repr_char q) s) @ [q])"

subsection \<open>Floats\<close>

text \<open>
  A Python \<open>float\<close> is an IEEE 754 binary64 value. \<open>Finite s m e\<close> is the number
  \<open>(-1)\<^sup>s * m * 2\<^sup>e\<close> in the canonical form of the format: \<open>0 \<le> m < 2\<^sup>5\<^sup>3\<close>,
  \<open>-1074 \<le> e \<le> 971\<close>, and \<open>m \<ge> 2\<^sup>5\<^sup>2\<close> unless \<open>e = -1074\<close> (zero and the subnormals).
  The sign is \<open>True\<close> for a negative value, so the two zeros are \<open>Finite False 0 (-1074)\<close>
  and \<open>Finite True 0 (-1074)\<close>.
\<close>

datatype pyfloat = Finite bool int int | Infinity bool | NaN

fun bit_length :: "int \<Rightarrow> int" where
  "bit_length n = (if n \<le> 0 then 0 else 1 + bit_length (n div 2))"

declare bit_length.simps [simp del]

definition pow2 :: "int \<Rightarrow> int" where
  "pow2 k = 2 ^ nat k"

definition pow10 :: "int \<Rightarrow> int" where
  "pow10 k = 10 ^ nat k"

definition half_even :: "int \<Rightarrow> int \<Rightarrow> int" where
  \<comment> \<open>\<open>num / den\<close> rounded to the nearest integer, a tie to the even one (\<open>den > 0\<close>)\<close>
  "half_even num den =
     (let q = num div den; r = num mod den
      in if den < 2 * r \<or> (2 * r = den \<and> odd q) then q + 1 else q)"

definition round_ratio :: "bool \<Rightarrow> int \<Rightarrow> int \<Rightarrow> pyfloat" where
  \<comment> \<open>the double nearest to \<open>(-1)\<^sup>s * n / d\<close> for \<open>n \<ge> 0\<close>, \<open>d > 0\<close>: round to nearest,
      ties to even, overflow to infinity, gradual underflow\<close>
  "round_ratio s n d =
     (if n \<le> 0 then Finite s 0 (- 1074)
      else
        let k = bit_length n - bit_length d;
            fl = (if (if 0 \<le> k then d * pow2 k \<le> n else d \<le> n * pow2 (- k)) then k else k - 1);
            e = max (fl - 52) (- 1074);
            num = (if e < 0 then n * pow2 (- e) else n);
            den = (if e < 0 then d else d * pow2 e);
            m = half_even num den;
            m' = (if m = pow2 53 then pow2 52 else m);
            e' = (if m = pow2 53 then e + 1 else e)
        in if 971 < e' then Infinity s else Finite s m' e')"

definition float_of_int :: "int \<Rightarrow> pyfloat" where
  \<comment> \<open>the conversion \<open>int * float\<close> applies to its left operand\<close>
  "float_of_int i = round_ratio (i < 0) \<bar>i\<bar> 1"

fun fneg :: "pyfloat \<Rightarrow> pyfloat" where
  "fneg (Finite s m e) = Finite (\<not> s) m e"
| "fneg (Infinity s) = Infinity (\<not> s)"
| "fneg NaN = NaN"

fun fabs :: "pyfloat \<Rightarrow> pyfloat" where
  "fabs (Finite s m e) = Finite False m e"
| "fabs (Infinity s) = Infinity False"
| "fabs NaN = NaN"

definition signed :: "bool \<Rightarrow> int \<Rightarrow> int" where
  "signed s m = (if s then - m else m)"

fun fadd :: "pyfloat \<Rightarrow> pyfloat \<Rightarrow> pyfloat" where
  "fadd NaN y = NaN"
| "fadd x NaN = NaN"
| "fadd (Infinity s) (Infinity t) = (if s = t then Infinity s else NaN)"
| "fadd (Infinity s) (Finite t m e) = Infinity s"
| "fadd (Finite s m e) (Infinity t) = Infinity t"
| "fadd (Finite s1 m1 e1) (Finite s2 m2 e2) =
     (let e = min e1 e2;
          t = signed s1 (m1 * pow2 (e1 - e)) + signed s2 (m2 * pow2 (e2 - e))
      in if t = 0 then Finite (s1 \<and> s2) 0 (- 1074)
         else if e < 0 then round_ratio (t < 0) \<bar>t\<bar> (pow2 (- e))
         else round_ratio (t < 0) (\<bar>t\<bar> * pow2 e) 1)"

fun fmul :: "pyfloat \<Rightarrow> pyfloat \<Rightarrow> pyfloat" where
  "fmul NaN y = NaN"
| "fmul x NaN = NaN"
| "fmul (Infinity s) (Infinity t) = Infinity (s \<noteq> t)"
| "fmul (Infinity s) (Finite t m e) = (if m = 0 then NaN else Infinity (s \<noteq> t))"
| "fmul (Finite s m e) (Infinity t) = (if m = 0 then NaN else Infinity (s \<noteq> t))"
| "fmul (Finite s1 m1 e1) (Finite s2 m2 e2) =
     (let e = e1 + e2; n = m1 * m2
      in if e < 0 then round_ratio (s1 \<noteq> s2) n (pow2 (- e))
         else round_ratio (s1 \<noteq> s2) (n * pow2 e) 1)"

definition is_finite :: "pyfloat \<Rightarrow> bool" where
  "is_finite x = (case x of Finite s m e \<Rightarrow> True | _ \<Rightarrow> False)"


subsection \<open>\<open>float(str)\<close> and the format \<open>.2f\<close>\<close>

text \<open>
  \<open>float\<close> applied to a token (a \<open>str\<close> without white space) accepts, after an optional
  sign, \<open>inf\<close>, \<open>infinity\<close> or \<open>nan\<close> in any case, or a decimal numeral with at least
  one digit, an optional point and an optional exponent; an underscore may stand between
  two digits. The value is the double nearest to the numeral. Anything else raises
  \<open>ValueError\<close>, here \<open>None\<close>. The digits are the ASCII digits: a token with a decimal
  digit of another script is outside this model.
\<close>

definition is_digit :: "char \<Rightarrow> bool" where
  "is_digit c = (48 \<le> char_code c \<and> char_code c \<le> 57)"

fun strip_underscores :: "char \<Rightarrow> string \<Rightarrow> string option" where
  \<comment> \<open>the first argument is the previous character\<close>
  "strip_underscores prev [] = (if prev = CHR ''_'' then None else Some [])"
| "strip_underscores prev (c # cs) =
     (if c = CHR ''_'' then (if is_digit prev then strip_underscores c cs else None)
      else if prev = CHR ''_'' \<and> \<not> is_digit c then None
      else map_option ((#) c) (strip_underscores c cs))"

definition nat_of_digits :: "string \<Rightarrow> int" where
  "nat_of_digits ds = foldl (\<lambda>a c. 10 * a + (char_code c - 48)) 0 ds"

definition take_sign :: "string \<Rightarrow> bool \<times> string" where
  "take_sign s =
     (case s of
        [] \<Rightarrow> (False, [])
      | c # cs \<Rightarrow> if c = CHR ''-'' then (True, cs) else if c = CHR ''+'' then (False, cs) else (False, s))"

definition parse_exponent :: "string \<Rightarrow> (int \<times> string) option" where
  \<comment> \<open>the exponent part and what follows it; \<open>None\<close> when \<open>e\<close> is not followed by digits\<close>
  "parse_exponent s =
     (case s of
        [] \<Rightarrow> Some (0, [])
      | c # cs \<Rightarrow>
          if c = CHR ''e'' \<or> c = CHR ''E'' then
            (let (neg, r) = take_sign cs; ds = takeWhile is_digit r
             in if ds = [] then None
                else Some (if neg then - nat_of_digits ds else nat_of_digits ds, dropWhile is_digit r))
          else Some (0, s))"

definition parse_decimal :: "bool \<Rightarrow> string \<Rightarrow> pyfloat option" where
  "parse_decimal neg s =
     (let ip = takeWhile is_digit s; r1 = dropWhile is_digit s;
          pt = (r1 \<noteq> [] \<and> hd r1 = CHR ''.'');
          fp = (if pt then takeWhile is_digit (tl r1) else []);
          r2 = (if pt then dropWhile is_digit (tl r1) else r1)
      in if ip = [] \<and> fp = [] then None
         else (case parse_exponent r2 of
                 None \<Rightarrow> None
               | Some (ex, r3) \<Rightarrow>
                   if r3 \<noteq> [] then None
                   else (let d = nat_of_digits (ip @ fp); x = ex - int (length fp)
                         in Some (if x < 0 then round_ratio neg d (pow10 (- x))
                                  else round_ratio neg (d * pow10 x) 1))))"

definition float_of_string :: "string \<Rightarrow> pyfloat option" where
  "float_of_string tok =
     (case strip_underscores (CHR 0x00) tok of
        None \<Rightarrow> None
      | Some t \<Rightarrow>
          (let (neg, r) = take_sign t; w = lower r
           in if w = ''inf'' \<or> w = ''infinity'' then Some (Infinity neg)
              else if w = ''nan'' then Some NaN
              else parse_decimal neg r))"

definition two_digits :: "int \<Rightarrow> string" where
  "two_digits n = [digit_char (n div 10), digit_char (n mod 10)]"

fun format_2f :: "pyfloat \<Rightarrow> string" where
  \<comment> \<open>the format specification \<open>.2f\<close>: the exact value rounded to hundredths, a tie to even\<close>
  "format_2f NaN = ''nan''"
| "format_2f (Infinity s) = (if s then ''-inf'' else ''inf'')"
| "format_2f (Finite s m e) =
     (let h = (if e < 0 then half_even (m * 100) (pow2 (- e)) else m * 100 * pow2 e)
      in (if s then ''-'' else []) @ str_of_nat (h div 100) @ ''.'' @ two_digits (h mod 100))"

section \<open>The ledger and its store\<close>

text \<open>
  The state of the bot is the dictionary \<open>self.state\<close> with the keys \<open>balance\<close>,
  \<open>weekly_amount\<close>, \<open>last_weekly_update\<close> and \<open>history\<close>; an entry of the history is
  a dictionary with the keys \<open>date\<close>, \<open>amount\<close> and \<open>comment\<close>. The records below
  are the dictionaries of this shape, as the bot creates and saves them.

  A calendar date is represented by its ordinal (\<open>date.toordinal()\<close>, the day number in
  the proleptic Gregorian calendar). The text \<open>YYYY-MM-DD\<close> that \<open>strftime\<close> writes into
  \<open>last_weekly_update\<close> and that \<open>strptime\<close> reads back denotes one such day, and the
  field is modelled by that day. A reading of the clock, \<open>datetime.now()\<close>, is given by
  the ordinal of its date and by its rendering \<open>strftime("%Y-%m-%d %H:%M")\<close>.
\<close>

record txn =
  date :: string
  amount :: pyfloat
  comment :: string

record ledger =
  balance :: pyfloat
  weekly_amount :: pyfloat
  last_weekly_update :: int
  history :: "txn list"

record datetime =
  ordinal :: int
  minute_text :: string

text \<open>
  \<open>BudgetBot\<close>: the dictionary in memory and the content of \<open>STATE_FILE\<close>, \<open>None\<close> while
  the file holds no ledger. \<open>json.dump\<close> followed by \<open>json.load\<close> gives the dictionary
  back (floats are written with \<open>repr\<close>, the non-finite ones as \<open>NaN\<close> and \<open>Infinity\<close>),
  so the file is modelled by the ledger it holds. Writing the file is taken to succeed.
\<close>

record bot =
  state :: ledger
  state_file :: "ledger option"

text \<open>
  What \<open>open(STATE_FILE, "r")\<close> followed by \<open>json.load(f)\<close> can raise: \<open>open\<close>
  raises a subclass of \<open>OSError\<close> (no such file, no permission, a directory);
  reading raises \<open>UnicodeDecodeError\<close> on bytes that are not text and \<open>json.load\<close> raises
  \<open>JSONDecodeError\<close> on text that is not JSON, both subclasses of \<open>ValueError\<close>;
  \<open>MemoryError\<close> stands for the exceptions of neither class.
\<close>

datatype exn =
    FileNotFoundError | PermissionError | IsADirectoryError
  | UnicodeDecodeError | JSONDecodeError
  | MemoryError

fun is_OSError :: "exn \<Rightarrow> bool" where
  "is_OSError FileNotFoundError = True"
| "is_OSError PermissionError = True"
| "is_OSError IsADirectoryError = True"
| "is_OSError _ = False"

fun is_ValueError :: "exn \<Rightarrow> bool" where
  "is_ValueError UnicodeDecodeError = True"
| "is_ValueError JSONDecodeError = True"
| "is_ValueError _ = False"

definition default_state :: "datetime \<Rightarrow> ledger" where
  "default_state now =
     \<lparr>balance = Finite False 0 (- 1074),
      weekly_amount = Finite False (pow2 52) (- 52),
      last_weekly_update = ordinal now,
      history = []\<rparr>"

definition load_state :: "exn + ledger \<Rightarrow> datetime \<Rightarrow> exn + ledger" where
  \<comment> \<open>\<open>rd\<close> is the outcome of opening and parsing the file: the exception raised, or the
      document read, which is returned as it is\<close>
  "load_state rd now =
     (case rd of
        Inr doc \<Rightarrow> Inr doc
      | Inl e \<Rightarrow> if is_OSError e \<or> is_ValueError e then Inr (default_state now) else Inl e)"

definition save_state :: "bot \<Rightarrow> bot" where
  "save_state b = b\<lparr>state_file := Some (state b)\<rparr>"

definition last10 :: "'a list \<Rightarrow> 'a list" where
  \<comment> \<open>the slice \<open>xs[-10:]\<close>\<close>
  "last10 xs = drop (length xs - 10) xs"

definition new_entry :: "datetime \<Rightarrow> pyfloat \<Rightarrow> string \<Rightarrow> txn" where
  \<comment> \<open>the dictionary appended to the history; \<open>now\<close> is the clock read for its date\<close>
  "new_entry now amt cmt =
     \<lparr>date = minute_text now, amount = amt,
      comment = (if cmt \<noteq> [] then cmt else ''Manual Entry'')\<rparr>"

definition add_transaction :: "datetime \<Rightarrow> pyfloat \<Rightarrow> string \<Rightarrow> bot \<Rightarrow> pyfloat \<times> bot" where
  \<comment> \<open>the result is the returned balance and the bot after the call\<close>
  "add_transaction now amt cmt b =
     (let s = state b;
          s1 = s\<lparr>balance := fadd (balance s) amt\<rparr>;
          s2 = s1\<lparr>history := history s1 @ [new_entry now amt cmt]\<rparr>;
          s3 = s2\<lparr>history := last10 (history s2)\<rparr>;
          b' = save_state (b\<lparr>state := s3\<rparr>)
      in (balance (state b'), b'))"

definition BudgetBot :: "exn + ledger \<Rightarrow> datetime \<Rightarrow> exn + bot" where
  \<comment> \<open>the constructor: the state is what \<open>load_state\<close> returns\<close>
  "BudgetBot rd now =
     (case load_state rd now of
        Inl e \<Rightarrow> Inl e
      | Inr s \<Rightarrow> Inr \<lparr>state = s, state_file = (case rd of Inr doc \<Rightarrow> Some doc | Inl e \<Rightarrow> None)\<rparr>)"

section \<open>The command interpreter\<close>

definition pound :: string where
  "pound = [CHR 0xC2, CHR 0xA3]"

definition bullet :: string where
  "bullet = [CHR 0xE2, CHR 0x80, CHR 0xA2]"

definition open_book :: string where
  "open_book = [CHR 0xF0, CHR 0x9F, CHR 0x93, CHR 0x96]"

definition money_bag :: string where
  "money_bag = [CHR 0xF0, CHR 0x9F, CHR 0x92, CHR 0xB0]"

definition scroll :: string where
  "scroll = [CHR 0xF0, CHR 0x9F, CHR 0x93, CHR 0x9C]"

definition check_mark :: string where
  "check_mark = [CHR 0xE2, CHR 0x9C, CHR 0x85]"

definition warning_sign :: string where
  "warning_sign = [CHR 0xE2, CHR 0x9A, CHR 0xA0, CHR 0xEF, CHR 0xB8, CHR 0x8F]"

definition gear :: string where
  "gear = [CHR 0xE2, CHR 0x9A, CHR 0x99, CHR 0xEF, CHR 0xB8, CHR 0x8F]"

definition backtick :: string where
  "backtick = [CHR 0x60]"

definition newline :: string where
  "newline = [CHR 0x0A]"

definition usage_text :: string where
  "usage_text =
     open_book @ '' *Budget Bot Usage*'' @ newline @
     bullet @ '' /balance - Show current balance'' @ newline @
     bullet @ '' /add [amount] [reason] - Add funds (e.g., '' @ backtick @ ''/add 10.50 birthday'' @ backtick @ '')'' @ newline @
     bullet @ '' /sub [amount] [reason] - Withdraw (e.g., '' @ backtick @ ''/sub 5 coffee'' @ backtick @ '')'' @ newline @
     bullet @ '' /history - Show last 10 transactions'' @ newline @
     bullet @ '' /set [amount] - Change weekly allowance'' @ newline @
     bullet @ '' /usage - Show this menu''"

definition balance_reply :: "pyfloat \<Rightarrow> string" where
  "balance_reply bal = money_bag @ '' Balance: '' @ pound @ format_2f bal"

definition history_line :: "txn \<Rightarrow> string" where
  "history_line h =
     bullet @ '' '' @ date h @ '': '' @ pound @ format_2f (amount h) @ '' ('' @ comment h @ '')''"

definition history_reply :: "txn list \<Rightarrow> string" where
  "history_reply hs =
     (if hs = [] then scroll @ '' No transactions yet.''
      else scroll @ '' Recent History:'' @ newline @ join newline (map history_line hs))"

definition confirmation_reply :: "string \<Rightarrow> pyfloat \<Rightarrow> pyfloat \<Rightarrow> string" where
  "confirmation_reply action amt bal =
     check_mark @ '' '' @ action @ '' '' @ pound @ format_2f (fabs amt) @
     ''. New Balance: '' @ pound @ format_2f bal"

definition invalid_amount_reply :: string where
  "invalid_amount_reply = warning_sign @ '' Invalid amount. Use: /add 5.00 chocolate''"

definition float_error :: "string \<Rightarrow> string" where
  \<comment> \<open>\<open>str(e)\<close> of the \<open>ValueError\<close> that \<open>float(tok)\<close> raises\<close>
  "float_error tok = ''could not convert string to float: '' @ repr tok"

definition error_reply :: "string \<Rightarrow> string" where
  "error_reply msg = warning_sign @ '' Error: '' @ msg"

definition set_reply :: "pyfloat \<Rightarrow> string" where
  "set_reply w = gear @ '' Weekly amount set to '' @ pound @ format_2f w"

text \<open>
  \<open>handle_command\<close> has no \<open>await\<close> in its body, so one call runs from its first to its
  last statement without the other task in between. The only exception its body can
  raise on a ledger of the shape above is the \<open>ValueError\<close> of \<open>float\<close>: in the branch of
  \<open>/add\<close>, \<open>/sub\<close> and \<open>/withdraw\<close> the inner handler answers it, in the branch of
  \<open>/set\<close> the outer handler does.
\<close>

definition handle_command :: "datetime \<Rightarrow> string \<Rightarrow> bot \<Rightarrow> string option \<times> bot" where
  "handle_command now text b =
     (let parts = split text
      in if parts = [] then (None, b)
         else
           let cmd = lower (hd parts)
           in if cmd \<in> set [''/usage'', ''/help''] then (Some usage_text, b)
              else if cmd = ''/balance'' then (Some (balance_reply (balance (state b))), b)
              else if cmd = ''/history'' then (Some (history_reply (history (state b))), b)
              else if cmd \<in> set [''/add'', ''/sub'', ''/withdraw''] \<and> 1 < length parts then
                (case float_of_string (parts ! 1) of
                   None \<Rightarrow> (Some invalid_amount_reply, b)
                 | Some v \<Rightarrow>
                     let cmt = (if 2 < length parts then join '' '' (drop 2 parts) else []);
                         sub = (cmd \<in> set [''/sub'', ''/withdraw'']);
                         amt = (if sub then fneg v else v);
                         action = (if sub then ''Subtracted'' else ''Added'');
                         b' = snd (add_transaction now amt cmt b)
                     in (Some (confirmation_reply action amt (balance (state b'))), b'))
              else if cmd = ''/set'' \<and> 1 < length parts then
                (case float_of_string (parts ! 1) of
                   None \<Rightarrow> (Some (error_reply (float_error (parts ! 1))), b)
                 | Some v \<Rightarrow>
                     let b' = save_state (b\<lparr>state := (state b)\<lparr>weekly_amount := v\<rparr>\<rparr>)
                     in (Some (set_reply (weekly_amount (state b'))), b'))
              else (None, b))"

section \<open>The weekly allowance\<close>

text \<open>
  One pass of the loop of \<open>weekly_task\<close>, from reading the clock to the sleep; there is
  no \<open>await\<close> in between. \<open>now\<close> is the clock read by the task, \<open>now'\<close> the clock read by
  \<open>add_transaction\<close> for the date of the entry. The difference \<open>(now - last_date).days\<close>
  of the clock and the midnight of the stored day is the difference of the two ordinals,
  also when it is negative. The dates of \<open>datetime\<close> lie in the years 1 to 9999, so the
  number of weeks is below \<open>2\<^sup>5\<^sup>3\<close> and its conversion to \<open>float\<close> is exact.
\<close>

definition allowance_comment :: "int \<Rightarrow> string" where
  "allowance_comment weeks = ''Auto-allowance ('' @ str_of_int weeks @ '' wks)''"

definition weekly_check :: "datetime \<Rightarrow> datetime \<Rightarrow> bot \<Rightarrow> bot" where
  "weekly_check now now' b =
     (let last_date = last_weekly_update (state b);
          days = ordinal now - last_date
      in if 7 \<le> days then
           let weeks = days div 7;
               total = fmul (float_of_int weeks) (weekly_amount (state b));
               b1 = snd (add_transaction now' total (allowance_comment weeks) b);
               b2 = b1\<lparr>state := (state b1)\<lparr>last_weekly_update := last_date + 7 * weeks\<rparr>\<rparr>
           in save_state b2
         else b)"

fun weekly_task :: "(datetime \<times> datetime) list \<Rightarrow> bot \<Rightarrow> bot" where
  \<comment> \<open>the first passes of the loop, which never ends: one pass for each element of the
      list, the two clocks read in that pass\<close>
  "weekly_task [] b = b"
| "weekly_task ((now, now') # ps) b = weekly_task ps (weekly_check now now' b)"

section \<open>Notions used by the properties\<close>

fun apply_all :: "(datetime \<times> pyfloat \<times> string) list \<Rightarrow> bot \<Rightarrow> bot" where
  \<comment> \<open>a sequence of calls of \<open>add_transaction\<close>, each with its clock, amount and comment\<close>
  "apply_all [] b = b"
| "apply_all ((now, amt, cmt) # ts) b = apply_all ts (snd (add_transaction now amt cmt b))"

definition amounts :: "(datetime \<times> pyfloat \<times> string) list \<Rightarrow> pyfloat list" where
  "amounts txs = map (fst \<circ> snd) txs"

fun exact_value :: "pyfloat \<Rightarrow> rat" where
  \<comment> \<open>the rational number that a finite float stands for\<close>
  "exact_value (Finite s m e) =
     (if e < 0 then of_int (signed s m) / of_int (pow2 (- e)) else of_int (signed s m * pow2 e))"
| "exact_value (Infinity s) = undefined"
| "exact_value NaN = undefined"

definition exact_sum_holds :: "bot \<Rightarrow> (datetime \<times> pyfloat \<times> string) list \<Rightarrow> bool" where
  \<comment> \<open>the final balance is the initial balance plus the sum of the amounts, as numbers\<close>
  "exact_sum_holds b txs =
     (exact_value (balance (state (apply_all txs b))) =
      exact_value (balance (state b)) + sum_list (map exact_value (amounts txs)))"



definition commands :: "string list" where
  "commands = [''/usage'', ''/help'', ''/balance'', ''/history'', ''/add'', ''/sub'', ''/withdraw'', ''/set'']"

subsection \<open>Example inputs\<close>

definition noon :: datetime where
  "noon = \<lparr>ordinal = 739924, minute_text = ''2026-11-04 12:00''\<rparr>"

definition fresh_bot :: bot where
  \<comment> \<open>the bot constructed while there is no state file\<close>
  "fresh_bot = \<lparr>state = default_state noon, state_file = None\<rparr>"

definition ten_adds :: "(datetime \<times> pyfloat \<times> string) list" where
  "ten_adds = map (\<lambda>k. (noon, float_of_int k, [])) [1, 2, 3, 4, 5, 6, 7, 8, 9, 10]"

definition full_bot :: bot where
  "full_bot = apply_all ten_adds fresh_bot"

definition large_then_one :: "(datetime \<times> pyfloat \<times> string) list" where
  \<comment> \<open>\<open>/add 9007199254740992\<close> followed by \<open>/add 1\<close>\<close>
  "large_then_one = [(noon, float_of_int 9007199254740992, []), (noon, float_of_int 1, [])]"

definition overdue_bot :: bot where
  \<comment> \<open>a weekly amount of 5 and the last update 17 days before \<open>noon\<close>\<close>
  "overdue_bot =
     \<lparr>state = (default_state noon)\<lparr>weekly_amount := float_of_int 5, last_weekly_update := 739907\<rparr>,
      state_file = None\<rparr>"


section \<open>Auxiliary facts\<close>

subsection \<open>The store\<close>

lemma add_transaction_state:
  "state (snd (add_transaction now amt cmt b)) =
     (state b)\<lparr>balance := fadd (balance (state b)) amt,
               history := last10 (history (state b) @ [new_entry now amt cmt])\<rparr>"
  by (simp add: add_transaction_def save_state_def Let_def)

lemma add_transaction_result:
  "fst (add_transaction now amt cmt b) = fadd (balance (state b)) amt"
  by (simp add: add_transaction_def save_state_def Let_def)

lemma length_last10: "length (last10 xs) \<le> 10"
  by (simp add: last10_def)

lemma last10_short: "length xs \<le> 10 \<Longrightarrow> last10 xs = xs"
  by (simp add: last10_def)

lemma last10_full: "length xs = 10 \<Longrightarrow> last10 (xs @ [x]) = tl xs @ [x]"
  by (cases xs) (simp_all add: last10_def)

lemma apply_all_balance:
  "balance (state (apply_all txs b)) = foldl fadd (balance (state b)) (amounts txs)"
proof (induction txs arbitrary: b)
  case Nil
  show ?case by (simp add: amounts_def)
next
  case (Cons tx txs)
  obtain now amt cmt where tx: "tx = (now, amt, cmt)" by (cases tx) auto
  show ?case using Cons.IH by (simp add: tx add_transaction_state amounts_def)
qed

subsection \<open>The branches of the interpreter\<close>


lemma confirmation_distinct: "confirmation_reply action amt bal \<noteq> invalid_amount_reply"
  by (simp add: confirmation_reply_def invalid_amount_reply_def warning_sign_def check_mark_def)

lemma handle_empty:
  assumes "split msg = []"
  shows "handle_command now msg b = (None, b)"
  using assms by (simp add: handle_command_def)

lemma handle_unknown:
  assumes "split msg = cmd # rest" and "lower cmd \<notin> set commands"
  shows "handle_command now msg b = (None, b)"
  using assms by (simp add: handle_command_def Let_def commands_def)

lemma handle_too_few:
  assumes "split msg = [cmd]" and "lower cmd \<in> set [''/add'', ''/sub'', ''/withdraw'', ''/set'']"
  shows "handle_command now msg b = (None, b)"
  using assms by (auto simp: handle_command_def Let_def)



lemma handle_add_good:
  assumes "split msg = cmd # tok # rest" and "lower cmd = ''/add''"
    and "float_of_string tok = Some v"
  shows "handle_command now msg b =
           (Some (confirmation_reply ''Added'' v (fadd (balance (state b)) v)),
            snd (add_transaction now v (join '' '' rest) b))"
proof -
  have c: "(if rest \<noteq> [] then join '' '' rest else []) = join '' '' rest"
    by (cases rest) simp_all
  show ?thesis
    using assms by (simp add: handle_command_def Let_def add_transaction_state c)
qed



lemma handle_history_bound:
  assumes "length (history (state b)) \<le> 10"
  shows "length (history (state (snd (handle_command now msg b)))) \<le> 10"
  using assms
  by (auto simp: handle_command_def Let_def add_transaction_state length_last10 save_state_def
           split: option.splits)


subsection \<open>The weekly check\<close>

lemma weekly_check_early:
  "ordinal now - last_weekly_update (state b) < 7 \<Longrightarrow> weekly_check now now' b = b"
  by (simp add: weekly_check_def Let_def)

lemma weekly_check_due:
  assumes "7 \<le> ordinal now - last_weekly_update (state b)"
  shows "state (weekly_check now now' b) =
     (state b)\<lparr>balance := fadd (balance (state b))
                   (fmul (float_of_int ((ordinal now - last_weekly_update (state b)) div 7))
                      (weekly_amount (state b))),
               history := last10 (history (state b) @
                   [new_entry now'
                      (fmul (float_of_int ((ordinal now - last_weekly_update (state b)) div 7))
                         (weekly_amount (state b)))
                      (allowance_comment ((ordinal now - last_weekly_update (state b)) div 7))]),
               last_weekly_update :=
                 last_weekly_update (state b) + 7 * ((ordinal now - last_weekly_update (state b)) div 7)\<rparr>"
  using assms by (simp add: weekly_check_def Let_def add_transaction_state save_state_def)

lemma weekly_check_remainder:
  assumes "7 \<le> ordinal now - last_weekly_update (state b)"
  shows "ordinal now - last_weekly_update (state (weekly_check now now' b)) =
         (ordinal now - last_weekly_update (state b)) mod 7"
proof -
  have "last_weekly_update (state (weekly_check now now' b)) =
        last_weekly_update (state b) + 7 * ((ordinal now - last_weekly_update (state b)) div 7)"
    by (simp add: weekly_check_due [OF assms])
  then show ?thesis
    by (simp add: minus_mult_div_eq_mod algebra_simps)
qed

lemma weekly_check_twice:
  "weekly_check now now'' (weekly_check now now' b) = weekly_check now now' b"
proof (cases "7 \<le> ordinal now - last_weekly_update (state b)")
  case True
  have "ordinal now - last_weekly_update (state (weekly_check now now' b)) < 7"
    by (simp add: weekly_check_remainder [OF True])
  then show ?thesis by (rule weekly_check_early)
next
  case False
  then show ?thesis by (simp add: weekly_check_early)
qed

lemma weekly_task_once:
  "weekly_task (map (Pair now) (t # ts)) b = weekly_check now t b"
proof (induction ts arbitrary: b t)
  case Nil
  show ?case by simp
next
  case (Cons u us)
  have "weekly_task (map (Pair now) (t # u # us)) b =
        weekly_task (map (Pair now) (u # us)) (weekly_check now t b)"
    by simp
  also have "\<dots> = weekly_check now u (weekly_check now t b)" by (rule Cons.IH)
  also have "\<dots> = weekly_check now t b" by (rule weekly_check_twice)
  finally show ?case .
qed

lemma weekly_history_bound:
  assumes "length (history (state b)) \<le> 10"
  shows "length (history (state (weekly_check now now' b))) \<le> 10"
  using assms
  by (auto simp: weekly_check_def Let_def add_transaction_state length_last10 save_state_def)

subsection \<open>Floats and their texts\<close>

lemma fadd_NaN: "fadd x NaN = NaN"
  by (cases x) simp_all

lemma fadd_inf: "\<not> is_finite (fadd x (Infinity False))"
  by (cases x) (simp_all add: is_finite_def)





lemma float_nan: "float_of_string ''nan'' = Some NaN"
  by code_simp

lemma float_inf: "float_of_string ''inf'' = Some (Infinity False)"
  by code_simp







lemma float_tenth_plus_fifth:
  "float_of_string ''0.1'' = Some (Finite False 7205759403792794 (- 56)) \<and>
   float_of_string ''0.2'' = Some (Finite False 7205759403792794 (- 55)) \<and>
   fadd (Finite False 7205759403792794 (- 56)) (Finite False 7205759403792794 (- 55)) =
     Finite False 5404319552844596 (- 54) \<and>
   float_of_string ''0.30000000000000004'' = Some (Finite False 5404319552844596 (- 54)) \<and>
   float_of_string ''0.3'' = Some (Finite False 5404319552844595 (- 54))"
  by code_simp

lemma format_2f_ties:
  "map_option format_2f (float_of_string ''0.125'') = Some ''0.12'' \<and>
   map_option format_2f (float_of_string ''0.375'') = Some ''0.38'' \<and>
   map_option format_2f (float_of_string ''2.675'') = Some ''2.67'' \<and>
   map_option format_2f (float_of_string ''-0.001'') = Some ''-0.00''"
  by code_simp

subsection \<open>The example messages\<close>

lemma split_add_only: "split ''/add'' = [''/add'']"
  by code_simp


lemma split_add_nan: "split ''/add nan'' = [''/add'', ''nan'']"
  by code_simp

lemma split_add_inf: "split ''/add inf'' = [''/add'', ''inf'']"
  by code_simp





lemma split_hello: "split ''/hello there'' = [''/hello'', ''there'']"
  by code_simp

lemma lower_add: "lower ''/add'' = ''/add''"
  by code_simp



lemma lower_hello: "lower ''/hello'' = ''/hello''"
  by code_simp

lemma full_bot_length: "length (history (state full_bot)) = 10"
  by code_simp



section \<open>The claims\<close>

subsection \<open>C1: the balance accumulates every amount\<close>

text \<open>
  The balance is a float and \<open>+=\<close> rounds each sum to the nearest double, so the final
  balance is not always the sum of the amounts as numbers: from the fresh state,
  \<open>/add 9007199254740992\<close> followed by \<open>/add 1\<close> leaves the balance at
  \<open>9007199254740992\<close>, since \<open>2\<^sup>5\<^sup>3 + 1\<close> is no double.
\<close>

theorem exact_sum_counterexample:
  "\<not> exact_sum_holds fresh_bot large_then_one"
  by code_simp

text \<open>
  Claim C1, as the code has it: for every sequence of applied transactions, whatever
  its length and whatever the history keeps of it, the final balance is the initial
  balance with the amounts added to it one after the other by the float addition, each
  amount as it was given; \<open>add_transaction\<close> adds its amount argument to the balance
  and returns the updated balance.
\<close>

theorem balance_is_running_float_sum:
  "balance (state (apply_all txs b)) = foldl fadd (balance (state b)) (amounts txs) \<and>
   fst (add_transaction now amt cmt b) = fadd (balance (state b)) amt \<and>
   balance (state (snd (add_transaction now amt cmt b))) = fadd (balance (state b)) amt"
  by (simp add: apply_all_balance add_transaction_result add_transaction_state)

theorem balance_is_running_float_sum_witness:
  "balance (state (apply_all ten_adds fresh_bot)) = float_of_int 55 \<and>
   length ten_adds = 10"
proof -
  have s: "foldl fadd (balance (state fresh_bot)) (amounts ten_adds) = float_of_int 55"
    by code_simp
  have l: "length ten_adds = 10"
    by code_simp
  from balance_is_running_float_sum [of ten_adds fresh_bot]
  have "balance (state (apply_all ten_adds fresh_bot)) =
          foldl fadd (balance (state fresh_bot)) (amounts ten_adds)"
    by (rule conjunct1)
  with s l show ?thesis by simp
qed

subsection \<open>C2: the history keeps the last ten entries\<close>

text \<open>
  Claim C2: after \<open>add_transaction\<close> the history has at most 10 entries, whatever it
  was before; applied to a history of 10 entries it drops the oldest one, keeps the
  other nine in their order and puts the new entry last; applied to a shorter history
  it only appends. A command and a weekly check keep a history of at most 10 entries
  within that bound, so the bound holds after every mutation of a state that starts
  with the empty history.
\<close>

theorem history_capped_fifo:
  "length (history (state (snd (add_transaction now amt cmt b)))) \<le> 10 \<and>
   (length (history (state b)) = 10 \<longrightarrow>
      history (state (snd (add_transaction now amt cmt b))) =
        tl (history (state b)) @ [new_entry now amt cmt]) \<and>
   (length (history (state b)) < 10 \<longrightarrow>
      history (state (snd (add_transaction now amt cmt b))) =
        history (state b) @ [new_entry now amt cmt]) \<and>
   (length (history (state b)) \<le> 10 \<longrightarrow>
      length (history (state (snd (handle_command now msg b)))) \<le> 10 \<and>
      length (history (state (weekly_check now now' b))) \<le> 10) \<and>
   history (default_state now) = []"
  by (simp add: add_transaction_state length_last10 last10_full last10_short
        handle_history_bound weekly_history_bound default_state_def)

theorem history_capped_fifo_witness:
  "length (history (state full_bot)) = 10 \<and>
   map amount (history (state full_bot)) =
     map float_of_int [1, 2, 3, 4, 5, 6, 7, 8, 9, 10] \<and>
   map amount (history (state (snd (add_transaction noon (float_of_int 11) [] full_bot)))) =
     map float_of_int [2, 3, 4, 5, 6, 7, 8, 9, 10, 11] \<and>
   length (history (state (snd (handle_command noon ''/add 11'' full_bot)))) \<le> 10 \<and>
   length (history (state (weekly_check noon noon full_bot))) \<le> 10"
proof -
  have h: "map amount (history (state full_bot)) =
             map float_of_int [1, 2, 3, 4, 5, 6, 7, 8, 9, 10]"
    by code_simp
  have e: "amount (new_entry noon (float_of_int 11) []) = float_of_int 11"
    by (simp add: new_entry_def)
  from history_capped_fifo [of noon "float_of_int 11" "[]" full_bot "''/add 11''" noon]
       full_bot_length
  have "history (state (snd (add_transaction noon (float_of_int 11) [] full_bot))) =
          tl (history (state full_bot)) @ [new_entry noon (float_of_int 11) []]
        \<and> length (history (state (snd (handle_command noon ''/add 11'' full_bot)))) \<le> 10
        \<and> length (history (state (weekly_check noon noon full_bot))) \<le> 10"
    by simp
  then show ?thesis
    using h e full_bot_length by (simp add: map_tl)
qed

subsection \<open>C3: the weekly check accrues the whole weeks\<close>



subsection \<open>C4: repeated checks at one clock accrue once\<close>

text \<open>
  Claim C4: with fewer than 7 days from \<open>last_weekly_update\<close> to the clock, a weekly
  check emits no transaction and leaves the whole bot as it is; a second check at the
  same clock changes nothing after the first; and any number of passes of the loop at
  the same clock leave the bot as the first pass left it, so that the history has
  gained at most one entry, the one accrual.
\<close>

theorem weekly_check_idempotent:
  "(ordinal now - last_weekly_update (state b) < 7 \<longrightarrow> weekly_check now now' b = b) \<and>
   weekly_check now now'' (weekly_check now now' b) = weekly_check now now' b \<and>
   weekly_task (map (Pair now) (t # ts)) b = weekly_check now t b \<and>
   (history (state (weekly_task (map (Pair now) (t # ts)) b)) = history (state b) \<or>
    history (state (weekly_task (map (Pair now) (t # ts)) b)) =
      last10 (history (state b) @
        [new_entry t (fmul (float_of_int ((ordinal now - last_weekly_update (state b)) div 7))
                        (weekly_amount (state b)))
           (allowance_comment ((ordinal now - last_weekly_update (state b)) div 7))]))"
proof -
  have "history (state (weekly_check now t b)) = history (state b) \<or>
    history (state (weekly_check now t b)) =
      last10 (history (state b) @
        [new_entry t (fmul (float_of_int ((ordinal now - last_weekly_update (state b)) div 7))
                        (weekly_amount (state b)))
           (allowance_comment ((ordinal now - last_weekly_update (state b)) div 7))])"
  proof (cases "7 \<le> ordinal now - last_weekly_update (state b)")
    case True
    then show ?thesis by (simp add: weekly_check_due)
  next
    case False
    then show ?thesis by (simp add: weekly_check_early)
  qed
  then show ?thesis
    by (simp add: weekly_check_early weekly_check_twice weekly_task_once
          del: weekly_task.simps list.map)
qed

theorem weekly_check_idempotent_witness:
  "ordinal noon - last_weekly_update (state fresh_bot) < 7 \<and>
   weekly_check noon noon fresh_bot = fresh_bot \<and>
   weekly_task [(noon, noon), (noon, noon), (noon, noon)] overdue_bot =
     weekly_check noon noon overdue_bot \<and>
   length (history (state (weekly_check noon noon overdue_bot))) = 1"
proof -
  have d: "ordinal noon - last_weekly_update (state fresh_bot) < 7" by code_simp
  have l: "length (history (state (weekly_check noon noon overdue_bot))) = 1" by code_simp
  from weekly_check_idempotent [of noon fresh_bot noon] d
  have a: "weekly_check noon noon fresh_bot = fresh_bot" by blast
  from weekly_check_idempotent [of noon overdue_bot noon noon noon "[noon, noon]"]
  have "weekly_task (map (Pair noon) [noon, noon, noon]) overdue_bot =
          weekly_check noon noon overdue_bot"
    by blast
  then have b: "weekly_task [(noon, noon), (noon, noon), (noon, noon)] overdue_bot =
          weekly_check noon noon overdue_bot"
    by simp
  show ?thesis using d a b l by blast
qed

subsection \<open>C5: an amount that is no number\<close>




subsection \<open>C6: loading falls back to the defaults\<close>



subsection \<open>C7: a command without its amount\<close>

text \<open>
  Claim C7: a message whose only token is \<open>/add\<close>, \<open>/sub\<close>, \<open>/withdraw\<close> or \<open>/set\<close>, in
  any case of the letters, gets no reply and leaves the bot as it is, and so does a
  message whose first token is no command.
\<close>

theorem too_few_arguments_silent:
  "(split msg = [cmd] \<and> lower cmd \<in> set [''/add'', ''/sub'', ''/withdraw'', ''/set''] \<longrightarrow>
      handle_command now msg b = (None, b)) \<and>
   (split msg = cmd # rest \<and> lower cmd \<notin> set commands \<longrightarrow>
      handle_command now msg b = (None, b))"
  by (simp add: handle_too_few handle_unknown)

theorem too_few_arguments_silent_witness:
  "split ''/add'' = [''/add''] \<and> lower ''/add'' \<in> set [''/add'', ''/sub'', ''/withdraw'', ''/set''] \<and>
   handle_command noon ''/add'' full_bot = (None, full_bot) \<and>
   split ''/hello there'' = [''/hello'', ''there''] \<and> lower ''/hello'' \<notin> set commands \<and>
   handle_command noon ''/hello there'' full_bot = (None, full_bot)"
proof -
  have u: "lower ''/hello'' \<notin> set commands" by code_simp
  show ?thesis
    using too_few_arguments_silent [where msg = "''/add''" and cmd = "''/add''" and now = noon
            and b = full_bot]
          too_few_arguments_silent [where msg = "''/hello there''" and cmd = "''/hello''"
            and rest = "[''there'']" and now = noon and b = full_bot] u
    by (simp add: split_add_only split_hello lower_add)
qed

subsection \<open>C8: the weekly amount\<close>




subsection \<open>C9: the balance command\<close>



subsection \<open>C10: amounts that are not finite\<close>

text \<open>
  Claim C10: the interpreter takes as an amount whatever \<open>float\<close> accepts. \<open>/add nan\<close>
  and \<open>/add inf\<close> apply a transaction whose amount is not finite, after which the
  balance is not finite either, and are answered with the confirmation, not with the
  invalid-amount reply; in general \<open>/add\<close> with a token that \<open>float\<close> turns into \<open>v\<close>
  applies a transaction of the amount \<open>v\<close> and confirms it.
\<close>

theorem float_tokens_accepted:
  "float_of_string ''nan'' = Some NaN \<and>
   handle_command now ''/add nan'' b =
     (Some (check_mark @ '' Added '' @ pound @ ''nan. New Balance: '' @ pound @ ''nan''),
      snd (add_transaction now NaN [] b)) \<and>
   balance (state (snd (handle_command now ''/add nan'' b))) = NaN \<and>
   float_of_string ''inf'' = Some (Infinity False) \<and>
   handle_command now ''/add inf'' b =
     (Some (check_mark @ '' Added '' @ pound @ ''inf. New Balance: '' @ pound @
            format_2f (fadd (balance (state b)) (Infinity False))),
      snd (add_transaction now (Infinity False) [] b)) \<and>
   \<not> is_finite (balance (state (snd (handle_command now ''/add inf'' b)))) \<and>
   (split msg = cmd # tok # rest \<and> lower cmd = ''/add'' \<and> float_of_string tok = Some v \<longrightarrow>
      handle_command now msg b =
        (Some (confirmation_reply ''Added'' v (fadd (balance (state b)) v)),
         snd (add_transaction now v (join '' '' rest) b)) \<and>
      confirmation_reply ''Added'' v (fadd (balance (state b)) v) \<noteq> invalid_amount_reply)"
proof -
  have n: "handle_command now ''/add nan'' b =
     (Some (confirmation_reply ''Added'' NaN (fadd (balance (state b)) NaN)),
      snd (add_transaction now NaN (join '' '' []) b))"
    by (rule handle_add_good [OF split_add_nan lower_add float_nan])
  have i: "handle_command now ''/add inf'' b =
     (Some (confirmation_reply ''Added'' (Infinity False) (fadd (balance (state b)) (Infinity False))),
      snd (add_transaction now (Infinity False) (join '' '' []) b))"
    by (rule handle_add_good [OF split_add_inf lower_add float_inf])
  have n': "handle_command now ''/add nan'' b =
     (Some (check_mark @ '' Added '' @ pound @ ''nan. New Balance: '' @ pound @ ''nan''),
      snd (add_transaction now NaN [] b))"
    by (simp add: n fadd_NaN confirmation_reply_def)
  have i': "handle_command now ''/add inf'' b =
     (Some (check_mark @ '' Added '' @ pound @ ''inf. New Balance: '' @ pound @
            format_2f (fadd (balance (state b)) (Infinity False))),
      snd (add_transaction now (Infinity False) [] b))"
    by (simp add: i confirmation_reply_def)
  have bn: "balance (state (snd (handle_command now ''/add nan'' b))) = NaN"
    by (simp add: n add_transaction_state fadd_NaN)
  have bi: "\<not> is_finite (balance (state (snd (handle_command now ''/add inf'' b))))"
    by (simp add: i add_transaction_state fadd_inf)
  have g: "handle_command now msg b =
        (Some (confirmation_reply ''Added'' v (fadd (balance (state b)) v)),
         snd (add_transaction now v (join '' '' rest) b)) \<and>
      confirmation_reply ''Added'' v (fadd (balance (state b)) v) \<noteq> invalid_amount_reply"
    if "split msg = cmd # tok # rest" and "lower cmd = ''/add''" and "float_of_string tok = Some v"
    using that by (simp add: handle_add_good confirmation_distinct)
  show ?thesis
    using n' i' bn bi g float_nan float_inf by blast
qed

theorem float_tokens_accepted_witness:
  "split ''/add inf'' = [''/add'', ''inf''] \<and> lower ''/add'' = ''/add'' \<and>
   float_of_string ''inf'' = Some (Infinity False) \<and>
   handle_command noon ''/add inf'' fresh_bot =
     (Some (check_mark @ '' Added '' @ pound @ ''inf. New Balance: '' @ pound @ ''inf''),
      snd (add_transaction noon (Infinity False) [] fresh_bot))"
proof -
  have z: "fadd (balance (state fresh_bot)) (Infinity False) = Infinity False" by code_simp
  show ?thesis
    using float_tokens_accepted [where msg = "''/add inf''" and cmd = "''/add''"
            and tok = "''inf''" and rest = "[]" and v = "Infinity False" and now = noon
            and b = fresh_bot]
    by (simp add: split_add_inf lower_add float_inf z)
qed

end
